theory Spec2Isabelle
  imports Main
begin

section \<open>Python values\<close>

text \<open>
  \<^verbatim>\<open>format_event\<close> takes a \<^verbatim>\<open>dict[str, Any]\<close> decoded from a service response, and
  the code inspects the values dynamically (\<^verbatim>\<open>isinstance\<close>, \<^verbatim>\<open>in\<close>, \<^verbatim>\<open>.get\<close>).
  The values are therefore modelled as a datatype of dynamically typed values. A
  dictionary is an association list in insertion order, looked up with \<open>map_of\<close>
  (a well-formed dictionary has distinct keys). \<open>POther s r\<close> stands for an object of
  any other, non-container type (a float, a datetime), given by its \<^verbatim>\<open>str()\<close> text
  \<open>s\<close> and its \<^verbatim>\<open>repr()\<close> text \<open>r\<close>. Strings are byte strings and the model is
  exact for ASCII text: a byte above 127 is left as it is by \<open>upper_char\<close> and by
  \<open>repr_char\<close>, where Python applies the Unicode case mapping and escapes the
  characters that are not printable.

  The code formats values with f-strings, and \<^verbatim>\<open>str()\<close> of an integer raises
  \<^verbatim>\<open>ValueError\<close> when the integer has more than 4300 decimal digits (the default
  limit of the interpreter, which the code does not change). The integers of the
  model are the integers below that limit, as a type of their own, so that formatting
  in the model gives a text exactly where \<^verbatim>\<open>str()\<close> gives one. Running out of memory
  or of stack is not modelled.
\<close>

definition max_str_digits :: nat where
  "max_str_digits = 4300"

typedef pyint = "{i :: int. - (10 ^ max_str_digits) < i \<and> i < 10 ^ max_str_digits}"
  by (rule exI [of _ 0]) simp

datatype pyval =
    PNone
  | PBool bool
  | PInt pyint
  | PStr string
  | PList "pyval list"
  | PDict "(string \<times> pyval) list"
  | POther string string

datatype py_error = TypeError | AttributeError | KeyError

subsection \<open>Rendering: \<^verbatim>\<open>str()\<close> and \<^verbatim>\<open>repr()\<close>\<close>

definition digit_char :: "nat \<Rightarrow> char" where
  "digit_char d = char_of (48 + d)"

fun nat_digits :: "nat \<Rightarrow> string" where
  "nat_digits n = (if n < 10 then [digit_char n] else nat_digits (n div 10) @ [digit_char (n mod 10)])"

declare nat_digits.simps [simp del]

text \<open>The decimal digits of an integer. It is applied to an integer of a value, which
  is below the limit, and to the length of a list.\<close>

definition int_str :: "int \<Rightarrow> string" where
  "int_str i = (if i < 0 then CHR ''-'' # nat_digits (nat (- i)) else nat_digits (nat i))"

definition hex_char :: "nat \<Rightarrow> char" where
  "hex_char d = (if d < 10 then char_of (48 + d) else char_of (87 + d))"

definition repr_char :: "char \<Rightarrow> char \<Rightarrow> string" where
  "repr_char q c =
     (let n = (of_char c :: nat) in
      if c = CHR 0x5C then [CHR 0x5C, CHR 0x5C]
      else if c = q then [CHR 0x5C, q]
      else if c = CHR 0x09 then [CHR 0x5C, CHR ''t'']
      else if c = CHR 0x0A then [CHR 0x5C, CHR ''n'']
      else if c = CHR 0x0D then [CHR 0x5C, CHR ''r'']
      else if n < 32 \<or> n = 127 then [CHR 0x5C, CHR ''x'', hex_char (n div 16), hex_char (n mod 16)]
      else [c])"

definition str_repr :: "string \<Rightarrow> string" where
  "str_repr s =
     (let q = (if CHR 0x27 \<in> set s \<and> CHR 0x22 \<notin> set s then CHR 0x22 else CHR 0x27)
      in q # concat (map (repr_char q) s) @ [q])"

fun str_join :: "string \<Rightarrow> string list \<Rightarrow> string" where
  "str_join sep [] = []"
| "str_join sep [x] = x"
| "str_join sep (x # y # ys) = x @ sep @ str_join sep (y # ys)"

primrec py_repr :: "pyval \<Rightarrow> string" where
  "py_repr PNone = ''None''"
| "py_repr (PBool b) = (if b then ''True'' else ''False'')"
| "py_repr (PInt i) = int_str (Rep_pyint i)"
| "py_repr (PStr s) = str_repr s"
| "py_repr (PList xs) = ''['' @ str_join '', '' (map py_repr xs) @ '']''"
| "py_repr (PDict kvs) =
     ''{'' @ str_join '', '' (map (\<lambda>kv. str_repr (fst kv) @ '': '' @ snd kv) (map (map_prod id py_repr) kvs)) @ ''}''"
| "py_repr (POther s r) = r"

definition py_str :: "pyval \<Rightarrow> string" where
  "py_str v = (case v of PStr s \<Rightarrow> s | POther s r \<Rightarrow> s | _ \<Rightarrow> py_repr v)"

subsection \<open>Dynamic operations used by the code\<close>

text \<open>\<^verbatim>\<open>x.get(key, default)\<close>: only a dictionary has the method.\<close>

definition py_get :: "pyval \<Rightarrow> string \<Rightarrow> pyval \<Rightarrow> py_error + pyval" where
  "py_get x k dflt =
     (case x of
        PDict kvs \<Rightarrow> Inr (case map_of kvs k of Some v \<Rightarrow> v | None \<Rightarrow> dflt)
      | _ \<Rightarrow> Inl AttributeError)"

text \<open>\<^verbatim>\<open>for item in x\<close>: a list gives its elements, a dictionary its keys, a string
  its characters; anything else is not iterable.\<close>

definition py_iter :: "pyval \<Rightarrow> py_error + pyval list" where
  "py_iter x =
     (case x of
        PList xs \<Rightarrow> Inr xs
      | PDict kvs \<Rightarrow> Inr (map (\<lambda>kv. PStr (fst kv)) kvs)
      | PStr s \<Rightarrow> Inr (map (\<lambda>c. PStr [c]) s)
      | _ \<Rightarrow> Inl TypeError)"

fun is_substring :: "string \<Rightarrow> string \<Rightarrow> bool" where
  "is_substring p [] = (p = [])"
| "is_substring p (c # cs) = (take (length p) (c # cs) = p \<or> is_substring p cs)"

text \<open>\<^verbatim>\<open>key in x\<close> for a string \<open>key\<close>: key membership in a dictionary, element
  membership in a list, substring test in a string; a \<^verbatim>\<open>TypeError\<close> otherwise.\<close>

definition py_contains :: "string \<Rightarrow> pyval \<Rightarrow> py_error + bool" where
  "py_contains k x =
     (case x of
        PDict kvs \<Rightarrow> Inr (map_of kvs k \<noteq> None)
      | PList xs \<Rightarrow> Inr (PStr k \<in> set xs)
      | PStr s \<Rightarrow> Inr (is_substring k s)
      | _ \<Rightarrow> Inl TypeError)"

text \<open>\<^verbatim>\<open>x[key]\<close> for a string \<open>key\<close>: only a dictionary can be indexed by a string.\<close>

definition py_getitem :: "pyval \<Rightarrow> string \<Rightarrow> py_error + pyval" where
  "py_getitem x k =
     (case x of
        PDict kvs \<Rightarrow> (case map_of kvs k of Some v \<Rightarrow> Inr v | None \<Rightarrow> Inl KeyError)
      | _ \<Rightarrow> Inl TypeError)"

definition upper_char :: "char \<Rightarrow> char" where
  "upper_char c = (let n = (of_char c :: nat) in if 97 \<le> n \<and> n \<le> 122 then char_of (n - 32) else c)"

text \<open>\<^verbatim>\<open>x.upper()\<close>: only a string has the method.\<close>

definition py_upper :: "pyval \<Rightarrow> py_error + string" where
  "py_upper x = (case x of PStr s \<Rightarrow> Inr (map upper_char s) | _ \<Rightarrow> Inl AttributeError)"

definition is_str :: "pyval \<Rightarrow> bool" where
  "is_str x = (case x of PStr s \<Rightarrow> True | _ \<Rightarrow> False)"

definition the_str :: "pyval \<Rightarrow> string" where
  "the_str x = (case x of PStr s \<Rightarrow> s | _ \<Rightarrow> [])"

text \<open>\<^verbatim>\<open>sep.join(parts)\<close>: every part must be a string.\<close>

definition py_join :: "string \<Rightarrow> pyval list \<Rightarrow> py_error + string" where
  "py_join sep parts =
     (if list_all is_str parts then Inr (str_join sep (map the_str parts)) else Inl TypeError)"

section \<open>\<^verbatim>\<open>format_event\<close>\<close>

definition is_dict :: "pyval \<Rightarrow> bool" where
  "is_dict x = (case x of PDict kvs \<Rightarrow> True | _ \<Rightarrow> False)"

definition has_key :: "pyval \<Rightarrow> string \<Rightarrow> bool" where
  "has_key x k = (case x of PDict kvs \<Rightarrow> map_of kvs k \<noteq> None | _ \<Rightarrow> False)"

definition get_or :: "pyval \<Rightarrow> string \<Rightarrow> pyval \<Rightarrow> pyval" where
  "get_or x k dflt = (case x of PDict kvs \<Rightarrow> (case map_of kvs k of Some v \<Rightarrow> v | None \<Rightarrow> dflt) | _ \<Rightarrow> dflt)"

text \<open>The comprehension
  \<^verbatim>\<open>[c.get("text", "") for c in content if isinstance(c, dict) and "text" in c]\<close>.\<close>

definition text_parts :: "pyval list \<Rightarrow> pyval list" where
  "text_parts content =
     map (\<lambda>c. get_or c ''text'' (PStr ''''))
       (filter (\<lambda>c. is_dict c \<and> has_key c ''text'') content)"

text \<open>The rendering of \<^verbatim>\<open>content\<close>: a list is replaced by the joined text parts, any
  other value is formatted by the f-string, that is by \<^verbatim>\<open>str()\<close>.\<close>

definition render_content :: "pyval \<Rightarrow> py_error + string" where
  "render_content content =
     (case content of
        PList cs \<Rightarrow> py_join '' '' (text_parts cs)
      | _ \<Rightarrow> Inr (py_str content))"

text \<open>The body of the loop for a conversational item: lines 18 to 30.\<close>

definition conversational_line :: "pyval \<Rightarrow> py_error + string" where
  "conversational_line conv =
     (case py_get conv ''role'' (PStr ''UNKNOWN'') of
        Inl e \<Rightarrow> Inl e
      | Inr r \<Rightarrow>
          (case py_upper r of
             Inl e \<Rightarrow> Inl e
           | Inr role \<Rightarrow>
               (case py_get conv ''content'' (PStr '''') of
                  Inl e \<Rightarrow> Inl e
                | Inr content \<Rightarrow>
                    (case render_content content of
                       Inl e \<Rightarrow> Inl e
                     | Inr text \<Rightarrow> Inr (''['' @ role @ ''] '' @ text)))))"

text \<open>One iteration of the loop over the payload: \<open>None\<close> when the item is skipped.\<close>

definition payload_item_line :: "pyval \<Rightarrow> py_error + string option" where
  "payload_item_line payload_item =
     (case py_contains ''conversational'' payload_item of
        Inl e \<Rightarrow> Inl e
      | Inr False \<Rightarrow> Inr None
      | Inr True \<Rightarrow>
          (case py_getitem payload_item ''conversational'' of
             Inl e \<Rightarrow> Inl e
           | Inr conv \<Rightarrow>
               (case conversational_line conv of
                  Inl e \<Rightarrow> Inl e
                | Inr l \<Rightarrow> Inr (Some l))))"

text \<open>The loop of lines 16 to 30, with the list \<^verbatim>\<open>lines\<close> as accumulator. An error
  leaves the loop at once.\<close>

fun payload_loop :: "pyval list \<Rightarrow> string list \<Rightarrow> py_error + string list" where
  "payload_loop [] lines = Inr lines"
| "payload_loop (payload_item # rest) lines =
     (case payload_item_line payload_item of
        Inl e \<Rightarrow> Inl e
      | Inr None \<Rightarrow> payload_loop rest lines
      | Inr (Some l) \<Rightarrow> payload_loop rest (lines @ [l]))"

definition event_head :: "pyval \<Rightarrow> pyval \<Rightarrow> string" where
  "event_head event_id timestamp = ''Event '' @ py_str event_id @ '' ('' @ py_str timestamp @ '')''"

definition indent :: "string \<Rightarrow> string" where
  "indent line = ''  '' @ line"

text \<open>The two \<^verbatim>\<open>return\<close> statements, lines 32 to 34.\<close>

definition event_text :: "pyval \<Rightarrow> pyval \<Rightarrow> string list \<Rightarrow> string" where
  "event_text event_id timestamp lines =
     (if lines \<noteq> []
      then event_head event_id timestamp @ '':'' @ [CHR 0x0A] @ str_join [CHR 0x0A] (map indent lines)
      else event_head event_id timestamp @ '': (no conversational content)'')"

definition format_event :: "pyval \<Rightarrow> py_error + string" where
  "format_event event =
     (case py_get event ''eventId'' (PStr ''unknown'') of
        Inl e \<Rightarrow> Inl e
      | Inr event_id \<Rightarrow>
          (case py_get event ''createdAt'' (PStr '''') of
             Inl e \<Rightarrow> Inl e
           | Inr timestamp \<Rightarrow>
               (case py_get event ''payload'' (PList []) of
                  Inl e \<Rightarrow> Inl e
                | Inr payload \<Rightarrow>
                    (case py_iter payload of
                       Inl e \<Rightarrow> Inl e
                     | Inr payload_items \<Rightarrow>
                         (case payload_loop payload_items [] of
                            Inl e \<Rightarrow> Inl e
                          | Inr lines \<Rightarrow> Inr (event_text event_id timestamp lines))))))"


section \<open>\<^verbatim>\<open>fetch_history\<close>\<close>

subsection \<open>The paginator of the service client\<close>

text \<open>
  The client, its paginator and the page iterator belong to the service library, so
  they are parameters of the model. Each of the three calls (\<^verbatim>\<open>boto3.client\<close>,
  \<^verbatim>\<open>get_paginator\<close>, \<^verbatim>\<open>paginate\<close>) returns its object or raises an error of the
  library, of type \<open>'e\<close>.

  The page iterator is lazy: a page is requested from the service when the loop asks
  for the next element. It is modelled by the outcomes of the successive requests, in
  order: \<open>Inl e\<close> when the request raises \<open>e\<close>, \<open>Inr (page, tok)\<close> when it yields the
  response \<open>page\<close>, \<open>tok\<close> being the value that
  \<^verbatim>\<open>getattr(page_iterator, "resume_token", None)\<close> reads while the iterator is
  suspended there. The end of the list is the end of the iteration.
\<close>

type_synonym 'e page_iterator = "('e + pyval \<times> string option) list"

record paginate_args =
  memoryId :: string
  actorId :: string
  sessionId :: string
  includePayloads :: bool
  PageSize :: int
  StartingToken :: "string option"

record ('e, 'c, 'p) sdk =
  boto3_client :: "string \<Rightarrow> string \<Rightarrow> 'e + 'c"
  get_paginator :: "'c \<Rightarrow> string \<Rightarrow> 'e + 'p"
  paginate :: "'p \<Rightarrow> paginate_args \<Rightarrow> 'e + 'e page_iterator"

text \<open>What ends a run early: an error of the library, or a Python error raised by the
  code's own operations on the values.\<close>

datatype 'e failure = ApiError 'e | PyError py_error

subsection \<open>The parameters of \<^verbatim>\<open>fetch_history\<close>\<close>

record query =
  memory_id :: string
  region :: string
  user_id :: string
  session_id :: string
  limit :: int
  next_token :: "string option"

text \<open>The truth value of a \<^verbatim>\<open>str | None\<close>: \<^verbatim>\<open>None\<close> and the empty string are false.\<close>

definition truthy :: "string option \<Rightarrow> bool" where
  "truthy t = (case t of None \<Rightarrow> False | Some s \<Rightarrow> s \<noteq> [])"

text \<open>Lines 60 to 70: the page size, and the starting token only when \<^verbatim>\<open>next_token\<close>
  is true.\<close>

definition pagination_args :: "query \<Rightarrow> paginate_args" where
  "pagination_args q =
     \<lparr> memoryId = memory_id q,
       actorId = user_id q,
       sessionId = session_id q,
       includePayloads = True,
       PageSize = limit q,
       StartingToken = (if truthy (next_token q) then next_token q else None) \<rparr>"

subsection \<open>The loop over the pages\<close>

text \<open>
  Lines 73 to 80. The loop body ends with \<^verbatim>\<open>break\<close>, so the function does not call
  itself: it takes at most the first outcome of the iterator. It returns the events and
  the resume token, or the error that left the loop, together with the part of the
  iterator that was not requested.
\<close>

fun first_page_loop ::
  "'e page_iterator \<Rightarrow> pyval list \<Rightarrow> string option \<Rightarrow>
     ('e failure + pyval list \<times> string option) \<times> 'e page_iterator" where
  "first_page_loop [] all_events resume_token = (Inr (all_events, resume_token), [])"
| "first_page_loop (Inl e # rest) all_events resume_token = (Inl (ApiError e), rest)"
| "first_page_loop (Inr (page, tok) # rest) all_events resume_token =
     (case py_get page ''events'' (PList []) of
        Inl err \<Rightarrow> (Inl (PyError err), rest)
      | Inr evs \<Rightarrow>
          (case py_iter evs of
             Inl err \<Rightarrow> (Inl (PyError err), rest)
           | Inr new_events \<Rightarrow> (Inr (all_events @ new_events, tok), rest)))"

subsection \<open>The output\<close>

text \<open>Standard output is the list of the arguments of the \<^verbatim>\<open>print\<close> calls, in order;
  \<^verbatim>\<open>print()\<close> is the empty string. The text written is each of them followed by a
  newline.\<close>

definition stdout_text :: "string list \<Rightarrow> string" where
  "stdout_text printed = concat (map (\<lambda>s. s @ [CHR 0x0A]) printed)"

text \<open>Lines 88 to 91. An event that fails to format ends the run; what was printed
  before stays printed.\<close>

fun print_events :: "pyval list \<Rightarrow> string list \<Rightarrow> string list \<times> py_error option" where
  "print_events [] out = (out, None)"
| "print_events (event # rest) out =
     (case format_event event of
        Inl e \<Rightarrow> (out, Some e)
      | Inr formatted \<Rightarrow> print_events rest (out @ [formatted, '''']))"

definition header_line :: "string \<Rightarrow> string \<Rightarrow> string" where
  "header_line uid sid =
     ''=== Conversation History (user: '' @ uid @ '', session: '' @ sid @ '') ==='' @ [CHR 0x0A]"

definition summary_line :: "pyval list \<Rightarrow> string" where
  "summary_line all_events = ''--- Showing '' @ int_str (int (length all_events)) @ '' event(s) ---''"

text \<open>Lines 95 to 99.\<close>

definition cursor_notice :: "string option \<Rightarrow> string list" where
  "cursor_notice resume_token =
     (if truthy resume_token
      then [[CHR 0x0A] @ ''More events available. Use --next-token to fetch next page:'',
            ''--next-token '' @ [CHR 0x22]
              @ (case resume_token of Some t \<Rightarrow> t | None \<Rightarrow> ''None'') @ [CHR 0x22]]
      else [[CHR 0x0A] @ ''No more events.''])"

text \<open>Lines 82 to 99: what is printed for the events and the resume token, and the
  error that ended the printing, if any.\<close>

definition render_page ::
  "string \<Rightarrow> string \<Rightarrow> pyval list \<Rightarrow> string option \<Rightarrow> string list \<times> py_error option" where
  "render_page uid sid all_events resume_token =
     (if all_events = [] then ([''No events found.''], None)
      else
        (case print_events all_events [header_line uid sid] of
           (out, Some e) \<Rightarrow> (out, Some e)
         | (out, None) \<Rightarrow> (out @ [summary_line all_events] @ cursor_notice resume_token, None)))"

subsection \<open>The whole function\<close>

text \<open>The result of a run: what was printed, the error that reached the caller
  (\<open>None\<close> for a normal return), and the part of the page iterator that was never
  requested (\<open>None\<close> when no iterator was made).\<close>

record 'e run =
  printed :: "string list"
  raised :: "'e failure option"
  not_requested :: "'e page_iterator option"

definition fetch_history :: "('e, 'c, 'p) sdk \<Rightarrow> query \<Rightarrow> 'e run" where
  "fetch_history s q =
     (case boto3_client s ''bedrock-agentcore'' (region q) of
        Inl e \<Rightarrow> \<lparr> printed = [], raised = Some (ApiError e), not_requested = None \<rparr>
      | Inr client \<Rightarrow>
          (case get_paginator s client ''list_events'' of
             Inl e \<Rightarrow> \<lparr> printed = [], raised = Some (ApiError e), not_requested = None \<rparr>
           | Inr paginator \<Rightarrow>
               (case paginate s paginator (pagination_args q) of
                  Inl e \<Rightarrow> \<lparr> printed = [], raised = Some (ApiError e), not_requested = None \<rparr>
                | Inr page_iterator \<Rightarrow>
                    (case first_page_loop page_iterator [] None of
                       (Inl f, left) \<Rightarrow> \<lparr> printed = [], raised = Some f, not_requested = Some left \<rparr>
                     | (Inr (all_events, resume_token), left) \<Rightarrow>
                         (case render_page (user_id q) (session_id q) all_events resume_token of
                            (out, err) \<Rightarrow>
                              \<lparr> printed = out, raised = map_option PyError err,
                                not_requested = Some left \<rparr>)))))"

section \<open>\<^verbatim>\<open>main\<close>\<close>

text \<open>The command line as given: the two required flags, and each optional flag when
  it was given, \<^verbatim>\<open>--limit\<close> already converted by \<^verbatim>\<open>type=int\<close>.\<close>

record cli_flags =
  flag_user_id :: string
  flag_session_id :: string
  flag_limit :: "int option"
  flag_next_token :: "string option"
  flag_memory_id :: "string option"
  flag_region :: "string option"

text \<open>The namespace that \<^verbatim>\<open>parse_args\<close> returns for the parser of lines 104 to 137:
  an optional flag that was not given has its declared default, which is 20 for
  \<^verbatim>\<open>--limit\<close> and \<^verbatim>\<open>None\<close> for the three others.\<close>

record namespace =
  args_user_id :: string
  args_session_id :: string
  args_limit :: int
  args_next_token :: "string option"
  args_memory_id :: "string option"
  args_region :: "string option"

definition parse_args :: "cli_flags \<Rightarrow> namespace" where
  "parse_args f =
     \<lparr> args_user_id = flag_user_id f,
       args_session_id = flag_session_id f,
       args_limit = (case flag_limit f of None \<Rightarrow> 20 | Some n \<Rightarrow> n),
       args_next_token = flag_next_token f,
       args_memory_id = flag_memory_id f,
       args_region = flag_region f \<rparr>"

text \<open>Lines 141 to 151: the arguments of the call of \<^verbatim>\<open>fetch_history\<close>.\<close>

definition main_query :: "namespace \<Rightarrow> query" where
  "main_query args =
     (let memory_id = ''aqua_memory_v1-ou5CPqEFsu'';
          region = ''eu-central-1''
      in \<lparr> memory_id = memory_id,
           region = region,
           user_id = args_user_id args,
           session_id = args_session_id args,
           limit = args_limit args,
           next_token = args_next_token args \<rparr>)"

definition main :: "('e, 'c, 'p) sdk \<Rightarrow> cli_flags \<Rightarrow> 'e run" where
  "main s f = fetch_history s (main_query (parse_args f))"

subsection \<open>Two services for the examples\<close>

text \<open>A service whose three calls succeed and whose page iterator has the given
  outcomes.\<close>

definition stub_sdk :: "'e page_iterator \<Rightarrow> ('e, unit, unit) sdk" where
  "stub_sdk page_iterator =
     \<lparr> boto3_client = (\<lambda>service region_name. Inr ()),
       get_paginator = (\<lambda>client operation. Inr ()),
       paginate = (\<lambda>paginator args. Inr page_iterator) \<rparr>"

text \<open>A service that shows what it was called with: the client is the region it was
  made for, and \<^verbatim>\<open>paginate\<close> raises an error that carries that region and the
  \<^verbatim>\<open>memoryId\<close> it received.\<close>

definition echo_sdk :: "(string \<times> string, string, string) sdk" where
  "echo_sdk =
     \<lparr> boto3_client = (\<lambda>service region_name. Inr region_name),
       get_paginator = (\<lambda>client operation. Inr client),
       paginate = (\<lambda>paginator args. Inl (paginator, memoryId args)) \<rparr>"

section \<open>Shapes of events\<close>

text \<open>A content fragment whose \<^verbatim>\<open>text\<close>, when it has one, is a string. A fragment that
  is not a dictionary is skipped by the comprehension, so any such value is accepted.\<close>

definition fragment_ok :: "pyval \<Rightarrow> bool" where
  "fragment_ok f =
     (case f of
        PDict kv \<Rightarrow> (case map_of kv ''text'' of None \<Rightarrow> True | Some v \<Rightarrow> is_str v)
      | _ \<Rightarrow> True)"


text \<open>The \<^verbatim>\<open>text\<close> values of a fragment sequence, in order, a fragment without
  \<^verbatim>\<open>text\<close> giving nothing. This is written from the data model, not from the
  comprehension of the code.\<close>

fun fragment_texts :: "pyval list \<Rightarrow> string list" where
  "fragment_texts [] = []"
| "fragment_texts (PDict kv # fs) =
     (case map_of kv ''text'' of Some (PStr t) \<Rightarrow> t # fragment_texts fs | _ \<Rightarrow> fragment_texts fs)"
| "fragment_texts (f # fs) = fragment_texts fs"

text \<open>A conversational value: a mapping whose \<^verbatim>\<open>role\<close>, when present, is a string and
  whose \<^verbatim>\<open>content\<close>, when it is a list, holds fragments as above.\<close>

definition conversational_ok :: "pyval \<Rightarrow> bool" where
  "conversational_ok conv =
     (case conv of
        PDict kv \<Rightarrow>
          (case map_of kv ''role'' of None \<Rightarrow> True | Some r \<Rightarrow> is_str r) \<and>
          (case map_of kv ''content'' of Some (PList frags) \<Rightarrow> list_all fragment_ok frags | _ \<Rightarrow> True)
      | _ \<Rightarrow> False)"

definition payload_item_ok :: "pyval \<Rightarrow> bool" where
  "payload_item_ok payload_item =
     (case payload_item of
        PDict kv \<Rightarrow>
          (case map_of kv ''conversational'' of None \<Rightarrow> True | Some conv \<Rightarrow> conversational_ok conv)
      | _ \<Rightarrow> False)"

text \<open>An event mapping whose \<^verbatim>\<open>payload\<close> is absent or a list of such items.\<close>

definition payload_ok :: "(string \<times> pyval) list \<Rightarrow> bool" where
  "payload_ok ev =
     (case map_of ev ''payload'' of
        None \<Rightarrow> True
      | Some (PList payload_items) \<Rightarrow> list_all payload_item_ok payload_items
      | Some _ \<Rightarrow> False)"

text \<open>A payload item that is a mapping without the \<^verbatim>\<open>conversational\<close> key.\<close>

definition not_conversational :: "pyval \<Rightarrow> bool" where
  "not_conversational payload_item = (is_dict payload_item \<and> \<not> has_key payload_item ''conversational'')"

section \<open>Properties of \<^verbatim>\<open>format_event\<close>\<close>

lemma text_parts_ok:
  "list_all fragment_ok frags \<Longrightarrow> list_all is_str (text_parts frags)"
  by (induction frags)
     (auto simp: text_parts_def fragment_ok_def is_dict_def has_key_def get_or_def
           split: pyval.splits option.splits)

lemma text_parts_texts:
  "list_all fragment_ok frags \<Longrightarrow> map the_str (text_parts frags) = fragment_texts frags"
proof (induction frags rule: fragment_texts.induct)
  case 1
  show ?case by (simp add: text_parts_def)
next
  case (2 kv fs)
  then show ?case
    by (auto simp: text_parts_def fragment_ok_def is_dict_def has_key_def get_or_def
                   the_str_def is_str_def split: pyval.splits option.splits)
qed (auto simp: text_parts_def is_dict_def)

lemma render_content_list:
  "list_all fragment_ok frags \<Longrightarrow>
     render_content (PList frags) = Inr (str_join '' '' (fragment_texts frags))"
  by (simp add: render_content_def py_join_def text_parts_ok text_parts_texts)

lemma render_content_total:
  "(case content of PList frags \<Rightarrow> list_all fragment_ok frags | _ \<Rightarrow> True) \<Longrightarrow>
     \<exists>t. render_content content = Inr t"
  by (cases content) (simp_all add: render_content_list, simp_all add: render_content_def)

lemma conversational_line_total:
  assumes ok: "conversational_ok conv"
  shows "\<exists>l. conversational_line conv = Inr l"
proof -
  from ok obtain kv where conv: "conv = PDict kv"
    by (cases conv) (simp_all add: conversational_ok_def)
  from ok conv obtain role where
    role: "py_upper (case map_of kv ''role'' of Some v \<Rightarrow> v | None \<Rightarrow> PStr ''UNKNOWN'') = Inr role"
    by (auto simp: conversational_ok_def py_upper_def is_str_def split: option.splits pyval.splits)
  from ok conv have
    "case (case map_of kv ''content'' of Some v \<Rightarrow> v | None \<Rightarrow> PStr []) of
       PList frags \<Rightarrow> list_all fragment_ok frags | _ \<Rightarrow> True"
    by (auto simp: conversational_ok_def split: option.splits pyval.splits)
  then obtain t where
    "render_content (case map_of kv ''content'' of Some v \<Rightarrow> v | None \<Rightarrow> PStr []) = Inr t"
    using render_content_total by blast
  with role conv show ?thesis
    by (simp add: conversational_line_def py_get_def)
qed

lemma payload_item_line_total:
  assumes ok: "payload_item_ok payload_item"
  shows "\<exists>r. payload_item_line payload_item = Inr r"
proof -
  from ok obtain kv where it: "payload_item = PDict kv"
    by (cases payload_item) (simp_all add: payload_item_ok_def)
  show ?thesis
  proof (cases "map_of kv ''conversational''")
    case None
    with it show ?thesis by (simp add: payload_item_line_def py_contains_def)
  next
    case (Some conv)
    with ok it have "conversational_ok conv" by (simp add: payload_item_ok_def)
    then obtain l where "conversational_line conv = Inr l"
      using conversational_line_total by blast
    with it Some show ?thesis
      by (simp add: payload_item_line_def py_contains_def py_getitem_def)
  qed
qed

lemma payload_loop_total:
  "list_all payload_item_ok payload_items \<Longrightarrow> \<exists>ls. payload_loop payload_items acc = Inr ls"
proof (induction payload_items arbitrary: acc)
  case Nil
  show ?case by simp
next
  case (Cons payload_item rest)
  then obtain r where r: "payload_item_line payload_item = Inr r"
    using payload_item_line_total by auto
  from Cons have "\<And>acc. \<exists>ls. payload_loop rest acc = Inr ls" by simp
  with r show ?case by (cases r) simp_all
qed

lemma payload_loop_skip:
  "list_all not_conversational payload_items \<Longrightarrow> payload_loop payload_items acc = Inr acc"
  by (induction payload_items arbitrary: acc)
     (auto simp: not_conversational_def payload_item_line_def py_contains_def is_dict_def
                 has_key_def split: pyval.splits)

lemma event_text_head:
  "\<exists>rest. event_text event_id timestamp ls =
            ''Event '' @ py_str event_id @ '' ('' @ py_str timestamp @ '')'' @ rest \<and> rest \<noteq> []"
  by (simp add: event_text_def event_head_def)

lemma format_event_list_payload:
  "map_of ev ''payload'' = Some (PList payload_items) \<Longrightarrow>
   payload_loop payload_items [] = Inr ls \<Longrightarrow>
   format_event (PDict ev) =
     Inr (event_text (case map_of ev ''eventId'' of Some v \<Rightarrow> v | None \<Rightarrow> PStr ''unknown'')
                     (case map_of ev ''createdAt'' of Some v \<Rightarrow> v | None \<Rightarrow> PStr []) ls)"
  by (simp add: format_event_def py_get_def py_iter_def)

lemma format_event_no_payload:
  "map_of ev ''payload'' = None \<Longrightarrow>
   format_event (PDict ev) =
     Inr (event_text (case map_of ev ''eventId'' of Some v \<Rightarrow> v | None \<Rightarrow> PStr ''unknown'')
                     (case map_of ev ''createdAt'' of Some v \<Rightarrow> v | None \<Rightarrow> PStr []) [])"
  by (simp add: format_event_def py_get_def py_iter_def)



text \<open>
  Claim C4. For an event whose payload has no conversational item (the payload is
  absent, or it is a list of mappings none of which has the key
  \<^verbatim>\<open>conversational\<close>), \<^verbatim>\<open>format_event\<close> returns the head with the event's id and
  timestamp followed by the exact placeholder \<^verbatim>\<open>(no conversational content)\<close>, and so
  never the empty string.
\<close>

theorem format_event_placeholder:
  assumes "map_of ev ''payload'' = None \<or>
           (\<exists>payload_items. map_of ev ''payload'' = Some (PList payload_items) \<and>
                             list_all not_conversational payload_items)"
  shows "format_event (PDict ev) =
           Inr (''Event '' @ py_str (case map_of ev ''eventId'' of Some v \<Rightarrow> v | None \<Rightarrow> PStr ''unknown'')
                @ '' ('' @ py_str (case map_of ev ''createdAt'' of Some v \<Rightarrow> v | None \<Rightarrow> PStr []) @ '')''
                @ '': (no conversational content)'')
         \<and> format_event (PDict ev) \<noteq> Inr []"
proof -
  from assms have
    "format_event (PDict ev) =
       Inr (event_text (case map_of ev ''eventId'' of Some v \<Rightarrow> v | None \<Rightarrow> PStr ''unknown'')
                       (case map_of ev ''createdAt'' of Some v \<Rightarrow> v | None \<Rightarrow> PStr []) [])"
  proof
    assume "map_of ev ''payload'' = None"
    then show ?thesis by (rule format_event_no_payload)
  next
    assume "\<exists>payload_items. map_of ev ''payload'' = Some (PList payload_items) \<and>
                            list_all not_conversational payload_items"
    then obtain payload_items where
      p: "map_of ev ''payload'' = Some (PList payload_items)" and
      n: "list_all not_conversational payload_items"
      by blast
    from n have "payload_loop payload_items [] = Inr []" by (rule payload_loop_skip)
    with p show ?thesis by (rule format_event_list_payload)
  qed
  then show ?thesis
    by (simp add: event_text_def event_head_def)
qed

theorem format_event_placeholder_witness:
  "format_event (PDict [(''eventId'', PStr ''e7''), (''createdAt'', PStr ''2025-01-01''),
      (''payload'', PList [PDict [(''blob'', PStr ''x'')]])])
   = Inr ''Event e7 (2025-01-01): (no conversational content)''"
  using format_event_placeholder
    [of "[(''eventId'', PStr ''e7''), (''createdAt'', PStr ''2025-01-01''),
      (''payload'', PList [PDict [(''blob'', PStr ''x'')]])]"]
  by (simp add: not_conversational_def is_dict_def has_key_def py_str_def)



text \<open>
  Claim C7, as amended. \<^verbatim>\<open>format_event\<close> is a function of its argument alone and
  always terminates. It returns a non-empty string, with the defaults for a missing id,
  timestamp, payload, role, content or fragment text, for every event mapping whose
  payload, when present, is a list of mappings, in which every
  \<^verbatim>\<open>conversational\<close> value is a mapping, every \<^verbatim>\<open>role\<close> present is a string and, in a
  list content, every \<^verbatim>\<open>text\<close> present in a mapping is a string. The integers in
  the event are those of the model, which \<^verbatim>\<open>str()\<close> can format (at most 4300
  digits). Nothing is said of an event of another shape.
\<close>

theorem format_event_total_on_shaped:
  assumes "payload_ok ev"
  shows "\<exists>s. format_event (PDict ev) = Inr s \<and> s \<noteq> []"
proof (cases "map_of ev ''payload''")
  case None
  then show ?thesis
    using format_event_no_payload [of ev] event_text_head by (metis append_is_Nil_conv list.discI)
next
  case (Some payload)
  with assms obtain payload_items where
    p: "payload = PList payload_items" and ok: "list_all payload_item_ok payload_items"
    by (cases payload) (simp_all add: payload_ok_def)
  from ok obtain ls where "payload_loop payload_items [] = Inr ls"
    using payload_loop_total by blast
  with Some p have
    "format_event (PDict ev) =
       Inr (event_text (case map_of ev ''eventId'' of Some v \<Rightarrow> v | None \<Rightarrow> PStr ''unknown'')
                       (case map_of ev ''createdAt'' of Some v \<Rightarrow> v | None \<Rightarrow> PStr []) ls)"
    by (simp add: format_event_list_payload)
  then show ?thesis
    using event_text_head by (metis append_is_Nil_conv list.discI)
qed

theorem format_event_total_on_shaped_witness:
  "payload_ok [(''payload'', PList [PDict [(''conversational'', PDict [(''content'', PList [PNone, PDict []])])]])]
   \<and> (\<exists>s. format_event (PDict [(''payload'', PList [PDict [(''conversational'', PDict [(''content'', PList [PNone, PDict []])])]])]) = Inr s \<and> s \<noteq> [])"
proof -
  have ok: "payload_ok [(''payload'', PList [PDict [(''conversational'', PDict [(''content'', PList [PNone, PDict []])])]])]"
    by (simp add: payload_ok_def payload_item_ok_def conversational_ok_def fragment_ok_def)
  from ok format_event_total_on_shaped [OF ok] show ?thesis by simp
qed

text \<open>
  Claim C7 as it is stated fails: a fragment whose \<^verbatim>\<open>text\<close> is \<^verbatim>\<open>None\<close> makes
  \<^verbatim>\<open>" ".join\<close> raise a \<^verbatim>\<open>TypeError\<close> at line 28, which nothing catches.
\<close>

theorem format_event_raises_on_text_not_string:
  "format_event (PDict [(''eventId'', PStr ''e1''),
      (''payload'', PList [PDict [(''conversational'',
          PDict [(''role'', PStr ''user''), (''content'', PList [PDict [(''text'', PNone)]])])]])])
   = Inl TypeError"
  by (simp add: format_event_def py_get_def py_iter_def payload_item_line_def py_contains_def
        py_getitem_def conversational_line_def py_upper_def render_content_def py_join_def
        text_parts_def is_dict_def has_key_def get_or_def is_str_def)

section \<open>Properties of \<^verbatim>\<open>fetch_history\<close>\<close>

lemma first_page_loop_left:
  "snd (first_page_loop page_iterator acc tok) = drop 1 page_iterator"
  by (induction page_iterator acc tok rule: first_page_loop.induct)
     (simp_all split: sum.splits)

lemma first_page_loop_first:
  "fst (first_page_loop page_iterator acc tok) = fst (first_page_loop (take 1 page_iterator) acc tok)"
  by (induction page_iterator acc tok rule: first_page_loop.induct)
     (simp_all split: sum.splits)

lemma fetch_history_run:
  assumes "boto3_client s ''bedrock-agentcore'' (region q) = Inr client"
      and "get_paginator s client ''list_events'' = Inr paginator"
      and "paginate s paginator (pagination_args q) = Inr page_iterator"
  shows "fetch_history s q =
           (case fst (first_page_loop page_iterator [] None) of
              Inl f \<Rightarrow> \<lparr> printed = [], raised = Some f, not_requested = Some (drop 1 page_iterator) \<rparr>
            | Inr (all_events, resume_token) \<Rightarrow>
                \<lparr> printed = fst (render_page (user_id q) (session_id q) all_events resume_token),
                  raised = map_option PyError (snd (render_page (user_id q) (session_id q) all_events resume_token)),
                  not_requested = Some (drop 1 page_iterator) \<rparr>)"
proof -
  obtain r left where rl: "first_page_loop page_iterator [] None = (r, left)"
    by (cases "first_page_loop page_iterator [] None")
  then have "left = drop 1 page_iterator"
    using first_page_loop_left [of page_iterator "[]" None] by simp
  with assms rl show ?thesis
    by (simp add: fetch_history_def split: sum.splits prod.splits)
qed

text \<open>
  Claim C1. Whatever the page iterator would go on to give, one run of
  \<^verbatim>\<open>fetch_history\<close> asks it for one page only: everything after the first outcome
  is left unrequested (\<open>drop 1\<close>), and what the run prints and raises is what it
  prints and raises when the iterator has that first outcome alone (\<open>take 1\<close>). No
  second page is fetched and none contributes an event.
\<close>

theorem fetch_history_one_page:
  assumes "boto3_client s ''bedrock-agentcore'' (region q) = Inr client"
      and "get_paginator s client ''list_events'' = Inr paginator"
      and "paginate s paginator (pagination_args q) = Inr page_iterator"
  shows "not_requested (fetch_history s q) = Some (drop 1 page_iterator)
       \<and> printed (fetch_history s q)
           = printed (fetch_history (s\<lparr>paginate := \<lambda>p a. Inr (take 1 page_iterator)\<rparr>) q)
       \<and> raised (fetch_history s q)
           = raised (fetch_history (s\<lparr>paginate := \<lambda>p a. Inr (take 1 page_iterator)\<rparr>) q)"
proof -
  let ?s = "s\<lparr>paginate := \<lambda>p a. Inr (take 1 page_iterator)\<rparr>"
  have a: "boto3_client ?s ''bedrock-agentcore'' (region q) = Inr client"
    using assms(1) by simp
  have b: "get_paginator ?s client ''list_events'' = Inr paginator"
    using assms(2) by simp
  have c: "paginate ?s paginator (pagination_args q) = Inr (take 1 page_iterator)"
    by simp
  have same: "fst (first_page_loop (take 1 page_iterator) [] None)
                = fst (first_page_loop page_iterator [] None)"
    using first_page_loop_first [of page_iterator "[]" None] by simp
  show ?thesis
    unfolding fetch_history_run [OF assms] fetch_history_run [OF a b c] same
    by (simp split: sum.splits prod.splits)
qed

theorem fetch_history_one_page_witness:
  "not_requested (fetch_history
      (stub_sdk [Inr (PDict [(''events'', PList [PDict [(''eventId'', PStr ''e1'')]])], None),
                 Inr (PDict [(''events'', PList [PDict [(''eventId'', PStr ''e2'')]])], None),
                 Inl ''throttled''])
      \<lparr> memory_id = ''m'', region = ''r'', user_id = ''u1'', session_id = ''s1'', limit = 1, next_token = None \<rparr>)
   = Some [Inr (PDict [(''events'', PList [PDict [(''eventId'', PStr ''e2'')]])], None), Inl ''throttled'']"
  using fetch_history_one_page
    [of "stub_sdk [Inr (PDict [(''events'', PList [PDict [(''eventId'', PStr ''e1'')]])], None),
                 Inr (PDict [(''events'', PList [PDict [(''eventId'', PStr ''e2'')]])], None),
                 Inl ''throttled'']"
        "\<lparr> memory_id = ''m'', region = ''r'', user_id = ''u1'', session_id = ''s1'', limit = 1, next_token = None \<rparr>"
        "()" "()"
        "[Inr (PDict [(''events'', PList [PDict [(''eventId'', PStr ''e1'')]])], None),
                 Inr (PDict [(''events'', PList [PDict [(''eventId'', PStr ''e2'')]])], None),
                 Inl ''throttled'']"]
  by (simp add: stub_sdk_def)

text \<open>
  Claim C8. An error of the service library is neither caught nor retried. When making
  the client, getting the paginator or calling \<^verbatim>\<open>paginate\<close> raises \<open>e\<close>, the run
  ends with \<open>e\<close> itself, nothing printed and no page requested. When the page request
  raises \<open>e\<close>, the run ends with \<open>e\<close> itself and nothing printed, and every later
  outcome of the iterator stays unrequested: there is no second request.
\<close>

theorem fetch_history_error_propagates:
  "(boto3_client s ''bedrock-agentcore'' (region q) = Inl e \<longrightarrow>
      fetch_history s q = \<lparr> printed = [], raised = Some (ApiError e), not_requested = None \<rparr>)
   \<and> (boto3_client s ''bedrock-agentcore'' (region q) = Inr client \<and>
      get_paginator s client ''list_events'' = Inl e \<longrightarrow>
      fetch_history s q = \<lparr> printed = [], raised = Some (ApiError e), not_requested = None \<rparr>)
   \<and> (boto3_client s ''bedrock-agentcore'' (region q) = Inr client \<and>
      get_paginator s client ''list_events'' = Inr paginator \<and>
      paginate s paginator (pagination_args q) = Inl e \<longrightarrow>
      fetch_history s q = \<lparr> printed = [], raised = Some (ApiError e), not_requested = None \<rparr>)
   \<and> (boto3_client s ''bedrock-agentcore'' (region q) = Inr client \<and>
      get_paginator s client ''list_events'' = Inr paginator \<and>
      paginate s paginator (pagination_args q) = Inr (Inl e # later) \<longrightarrow>
      fetch_history s q = \<lparr> printed = [], raised = Some (ApiError e), not_requested = Some later \<rparr>)"
  by (simp add: fetch_history_def)

theorem fetch_history_error_propagates_witness:
  "fetch_history (stub_sdk [Inl ''ExpiredToken'', Inr (PDict [(''events'', PList [PDict []])], None)])
      \<lparr> memory_id = ''m'', region = ''r'', user_id = ''u1'', session_id = ''s1'', limit = 20, next_token = Some ''abc'' \<rparr>
   = \<lparr> printed = [], raised = Some (ApiError ''ExpiredToken''),
       not_requested = Some [Inr (PDict [(''events'', PList [PDict []])], None)] \<rparr>"
  using fetch_history_error_propagates
    [of "stub_sdk [Inl ''ExpiredToken'', Inr (PDict [(''events'', PList [PDict []])], None)]"
        "\<lparr> memory_id = ''m'', region = ''r'', user_id = ''u1'', session_id = ''s1'', limit = 20, next_token = Some ''abc'' \<rparr>"
        "''ExpiredToken''" "()" "()" "[Inr (PDict [(''events'', PList [PDict []])], None)]"]
  by (simp add: stub_sdk_def)

text \<open>
  Claim C5. When the fetch ends with an empty list of events (the iterator gives no
  page, or the page has no events), exactly one line is printed, the literal
  \<^verbatim>\<open>No events found.\<close>, and the run returns normally: no header, no summary and no
  cursor notice, whether or not a resume token was read.
\<close>

theorem fetch_history_no_events:
  assumes "boto3_client s ''bedrock-agentcore'' (region q) = Inr client"
      and "get_paginator s client ''list_events'' = Inr paginator"
      and "paginate s paginator (pagination_args q) = Inr page_iterator"
      and "fst (first_page_loop page_iterator [] None) = Inr ([], resume_token)"
  shows "printed (fetch_history s q) = [''No events found.'']
       \<and> raised (fetch_history s q) = None
       \<and> stdout_text (printed (fetch_history s q)) = ''No events found.'' @ [CHR 0x0A]"
  unfolding fetch_history_run [OF assms(1-3)] assms(4)
  by (simp add: render_page_def stdout_text_def)

theorem fetch_history_no_events_witness:
  "printed (fetch_history (stub_sdk ([Inr (PDict [(''events'', PList [])], Some ''abc'')] :: string page_iterator))
      \<lparr> memory_id = ''m'', region = ''r'', user_id = ''u1'', session_id = ''s1'', limit = 20, next_token = None \<rparr>)
   = [''No events found.'']"
  using fetch_history_no_events
    [of "stub_sdk ([Inr (PDict [(''events'', PList [])], Some ''abc'')] :: string page_iterator)"
        "\<lparr> memory_id = ''m'', region = ''r'', user_id = ''u1'', session_id = ''s1'', limit = 20, next_token = None \<rparr>"
        "()" "()" "[Inr (PDict [(''events'', PList [])], Some ''abc'')]" "Some ''abc''"]
  by (simp add: stub_sdk_def py_get_def py_iter_def)

section \<open>Properties of the page rendering and of \<^verbatim>\<open>main\<close>\<close>







text \<open>
  Claim C6 at a command line that gives \<^verbatim>\<open>--memory-id other-memory\<close> and
  \<^verbatim>\<open>--region us-east-1\<close>: \<^verbatim>\<open>main\<close> calls \<^verbatim>\<open>fetch_history\<close> with the two fixed values
  and not with the values of the flags, and these fixed values are what reaches the
  service library. The defaults of \<^verbatim>\<open>--limit\<close> (20) and \<^verbatim>\<open>--next-token\<close> (absent) are
  as the claim says.
\<close>

theorem main_ignores_memory_id_and_region_flags:
  "main_query (parse_args \<lparr> flag_user_id = ''u1'', flag_session_id = ''s1'', flag_limit = None,
       flag_next_token = None, flag_memory_id = Some ''other-memory'', flag_region = Some ''us-east-1'' \<rparr>)
     = \<lparr> memory_id = ''aqua_memory_v1-ou5CPqEFsu'', region = ''eu-central-1'', user_id = ''u1'',
         session_id = ''s1'', limit = 20, next_token = None \<rparr>
   \<and> raised (main echo_sdk \<lparr> flag_user_id = ''u1'', flag_session_id = ''s1'', flag_limit = None,
       flag_next_token = None, flag_memory_id = Some ''other-memory'', flag_region = Some ''us-east-1'' \<rparr>)
     = Some (ApiError (''eu-central-1'', ''aqua_memory_v1-ou5CPqEFsu''))"
  by (simp add: main_def main_query_def parse_args_def fetch_history_def echo_sdk_def
        pagination_args_def)

end
